theory Spec2Isabelle
  imports Main "HOL-Library.Sublist"
begin

section \<open>Text helpers of the Python runtime\<close>

text \<open>
  A Python \<open>str\<close> is modelled as a \<open>string\<close> whose characters are the code points
  below 256. The text of a file is the text as the program sees it in text mode (after
  newline translation), so the only line terminator is the line feed.
\<close>

definition nl :: char where
  "nl = CHR 0x0A"

text \<open>\<open>palabra_clave in linea\<close>: the keyword occurs as a contiguous, case-sensitive
  piece of the line. The search tries every start position from the left.\<close>

fun contiene :: "string \<Rightarrow> string \<Rightarrow> bool" where
  "contiene k [] = (k = [])"
| "contiene k (c # cs) = (prefix k (c # cs) \<or> contiene k cs)"

text \<open>\<open>f.readlines()\<close>: the text cut after every line feed; each line keeps its
  terminator, and a last line without terminator is kept when it is not empty.\<close>

fun readlines :: "string \<Rightarrow> string list" where
  "readlines [] = []"
| "readlines (c # cs) =
     (if c = nl then [c] # readlines cs
      else (case readlines cs of [] \<Rightarrow> [[c]] | l # ls \<Rightarrow> (c # l) # ls))"

text \<open>\<open>str.strip()\<close>: white space (for code points below 256) removed at both ends.\<close>

definition es_blanco :: "char \<Rightarrow> bool" where
  "es_blanco c \<longleftrightarrow>
     c \<in> set [CHR 0x09, CHR 0x0A, CHR 0x0B, CHR 0x0C, CHR 0x0D,
               CHR 0x1C, CHR 0x1D, CHR 0x1E, CHR 0x1F, CHR 0x20, CHR 0x85, CHR 0xA0]"

definition strip :: "string \<Rightarrow> string" where
  "strip s = rev (dropWhile es_blanco (rev (dropWhile es_blanco s)))"

text \<open>The decimal numeral of a natural number, as an f-string prints it.\<close>

fun decimal :: "nat \<Rightarrow> string" where
  "decimal n =
     (if n < 10 then [''0123456789'' ! n]
      else decimal (n div 10) @ [''0123456789'' ! (n mod 10)])"

declare decimal.simps [simp del]

section \<open>Data model\<close>

text \<open>The two threads of the program, the two shared module-level variables, and the
  events on them. Every event carries the source line that performs it.\<close>

datatype hilo = Principal | Secundario

datatype campo = Contador | Bandera

datatype acceso =
    Adquiere hilo nat
  | Libera hilo nat
  | Lee hilo campo nat
  | Escribe hilo campo nat

text \<open>The exceptions that the model raises.\<close>

datatype excepcion = FileNotFoundError | PermissionError | EOFError

text \<open>What the program prints: one constructor per \<open>print\<close> site (the source lines in
  the comments), with the values that the message interpolates.\<close>

datatype aviso =
    Cabecera                     \<comment> \<open>196-197\<close>
  | Generando nat                \<comment> \<open>34\<close>
  | Generado string              \<comment> \<open>57\<close>
  | AvisoInicioHilo string       \<comment> \<open>74\<close>
  | Progreso nat nat             \<comment> \<open>98\<close>
  | AvisoFinHilo int string      \<comment> \<open>114\<close>
  | AvisoErrorHilo excepcion     \<comment> \<open>118\<close>
  | MenuMostrado                 \<comment> \<open>130-138\<close>
  | Hora                         \<comment> \<open>144-145\<close>
  | Mensaje string               \<comment> \<open>156\<close>
  | ConteoFinalizado int         \<comment> \<open>168\<close>
  | ConteoEnCurso int            \<comment> \<open>170\<close>
  | Suma string string           \<comment> \<open>181\<close>
  | SumaError                    \<comment> \<open>183\<close>
  | Saliendo                     \<comment> \<open>245\<close>
  | Esperando                    \<comment> \<open>249\<close>
  | NoValida                     \<comment> \<open>254\<close>
  | CabeceraFinal                \<comment> \<open>262-264\<close>
  | ResultadoFinal string int    \<comment> \<open>269\<close>
  | Despedida                    \<comment> \<open>273-274\<close>

text \<open>Where each thread stands. The secondary thread runs
  \<open>contar_errores_en_fichero\<close>; its local variables \<open>lineas\<close>, \<open>i\<close> and
  \<open>contador_local\<close> travel with the program point.\<close>

datatype pc_secundario =
    S_no_lanzado
  | S_inicio                          \<comment> \<open>74-84\<close>
  | S_bucle "string list" nat int     \<comment> \<open>87-98: lineas, i, contador_local\<close>
  | S_adquirir int                    \<comment> \<open>104\<close>
  | S_escribir int                    \<comment> \<open>107\<close>
  | S_liberar int                     \<comment> \<open>111-114\<close>
  | S_except excepcion                \<comment> \<open>116-118\<close>
  | S_finally                         \<comment> \<open>120-122\<close>
  | S_terminado

datatype pc_principal =
    P_generar                \<comment> \<open>196-209\<close>
  | P_lanzar                 \<comment> \<open>217-224\<close>
  | P_menu                   \<comment> \<open>231-245, 253-257\<close>
  | P_estado_adquirir        \<comment> \<open>164\<close>
  | P_estado_bandera         \<comment> \<open>167\<close>
  | P_estado_contador bool   \<comment> \<open>168 or 170\<close>
  | P_estado_liberar         \<comment> \<open>173, 257\<close>
  | P_salir                  \<comment> \<open>248-249, 262-264\<close>
  | P_join                   \<comment> \<open>251-252, 262-264\<close>
  | P_final_adquirir         \<comment> \<open>267\<close>
  | P_final_leer             \<comment> \<open>269\<close>
  | P_final_liberar          \<comment> \<open>271-274\<close>
  | P_terminado
  | P_abortado excepcion

text \<open>The local constants of \<open>main\<close> (lines 202-204), and the one library function
  whose behaviour is taken as given: which strings \<open>float()\<close> accepts.\<close>

record config =
  nombre_archivo :: string
  palabra_clave :: string
  num_lineas :: nat
  es_float :: "string \<Rightarrow> bool"

text \<open>The state of the process and of its environment: the file system (file name to
  text), which names can be opened for writing, the random source, the lines waiting on
  standard input, what has been printed, the three module-level variables of lines 14-21,
  the program point of each thread, and the history of the events on the shared
  variables and on the semaphore.\<close>

record estado =
  ficheros :: "string \<Rightarrow> string option"
  escribible :: "string \<Rightarrow> bool"
  azar :: "nat \<Rightarrow> nat"
  entrada :: "string list"
  salida :: "aviso list"
  contador_errores :: int
  semaforo :: nat
  hilo_terminado :: bool
  pp :: pc_principal
  ph :: pc_secundario
  historia :: "acceso list"

section \<open>The program\<close>

subsection \<open>\<open>generar_fichero_grande\<close> (lines 26-57)\<close>

definition mensajes_posibles :: "string list" where
  "mensajes_posibles =
     [''INFO: Sistema iniciado correctamente'',
      ''ERROR: No se pudo conectar a la base de datos'',
      ''WARNING: Memoria baja disponible'',
      ''ERROR: Timeout en la petici'' @ [CHR 0xF3] @ ''n'',
      ''INFO: Usuario autenticado'',
      ''DEBUG: Procesando solicitud'',
      ''ERROR: Archivo no encontrado'',
      ''INFO: Operaci'' @ [CHR 0xF3] @ ''n completada con '' @ [CHR 0xE9] @ ''xito'',
      ''WARNING: Certificado SSL pr'' @ [CHR 0xF3] @ ''ximo a expirar'',
      ''ERROR: Permiso denegado'']"

text \<open>\<open>random.choice(xs)\<close> with the random number \<open>r\<close>.\<close>

definition choice :: "nat \<Rightarrow> 'a list \<Rightarrow> 'a" where
  "choice r xs = xs ! (r mod length xs)"

text \<open>Line 54: the line written for the loop index \<open>i\<close>.\<close>

definition linea_generada :: "(nat \<Rightarrow> nat) \<Rightarrow> nat \<Rightarrow> string" where
  "linea_generada rnd i =
     ''['' @ decimal (i + 1) @ ''] '' @ choice (rnd i) mensajes_posibles @ [nl]"

definition texto_generado :: "(nat \<Rightarrow> nat) \<Rightarrow> nat \<Rightarrow> string" where
  "texto_generado rnd n = concat (map (linea_generada rnd) [0..<n])"

text \<open>The function returns the new state and the exception that leaves it, if any.
  Opening for writing fails before anything is written; it succeeds or fails as the
  environment says.\<close>

definition generar_fichero_grande ::
    "string \<Rightarrow> nat \<Rightarrow> estado \<Rightarrow> estado \<times> excepcion option" where
  "generar_fichero_grande nombre n s =
     (let s1 = s\<lparr>salida := salida s @ [Generando n]\<rparr> in
      if escribible s nombre
      then (s1\<lparr>ficheros := (ficheros s)(nombre \<mapsto> texto_generado (azar s) n),
                azar := (\<lambda>i. azar s (i + n)),
                salida := salida s1 @ [Generado nombre]\<rparr>, None)
      else (s1, Some PermissionError))"

subsection \<open>\<open>contar_errores_en_fichero\<close> (lines 62-122), one atomic step at a time\<close>

text \<open>Lines 81-83: opening and reading the file.\<close>

definition leer_fichero :: "estado \<Rightarrow> string \<Rightarrow> excepcion + string list" where
  "leer_fichero s nombre =
     (case ficheros s nombre of
        None \<Rightarrow> Inl FileNotFoundError
      | Some t \<Rightarrow> Inr (readlines t))"

text \<open>
  A step of the secondary thread. It is \<open>None\<close> when the thread cannot move: it has not
  been started, it has finished, or it waits for the semaphore. The artificial delay of
  line 90 changes nothing and is not a step of its own.
\<close>

definition paso_contar_errores_en_fichero ::
    "string \<Rightarrow> string \<Rightarrow> estado \<Rightarrow> estado option" where
  "paso_contar_errores_en_fichero nombre palabra s =
     (case ph s of
        S_no_lanzado \<Rightarrow> None
      | S_inicio \<Rightarrow>
          (let s1 = s\<lparr>salida := salida s @ [AvisoInicioHilo palabra]\<rparr> in
           case leer_fichero s1 nombre of
             Inl e \<Rightarrow> Some (s1\<lparr>ph := S_except e\<rparr>)
           | Inr lineas \<Rightarrow> Some (s1\<lparr>ph := S_bucle lineas 0 0\<rparr>))
      | S_bucle lineas i contador_local \<Rightarrow>
          (if i < length lineas
           then Some (s\<lparr>salida := salida s @
                          (if (i + 1) mod 1000 = 0 then [Progreso (i + 1) (length lineas)]
                           else []),
                        ph := S_bucle lineas (i + 1)
                          (if contiene palabra (lineas ! i) then contador_local + 1
                           else contador_local)\<rparr>)
           else Some (s\<lparr>ph := S_adquirir contador_local\<rparr>))
      | S_adquirir contador_local \<Rightarrow>
          (if semaforo s = 0 then None
           else Some (s\<lparr>semaforo := semaforo s - 1,
                        historia := historia s @ [Adquiere Secundario 104],
                        ph := S_escribir contador_local\<rparr>))
      | S_escribir contador_local \<Rightarrow>
          Some (s\<lparr>contador_errores := contador_local,
                  historia := historia s @ [Escribe Secundario Contador 107],
                  ph := S_liberar contador_local\<rparr>)
      | S_liberar contador_local \<Rightarrow>
          Some (s\<lparr>semaforo := semaforo s + 1,
                  historia := historia s @ [Libera Secundario 111],
                  salida := salida s @ [AvisoFinHilo contador_local palabra],
                  ph := S_finally\<rparr>)
      | S_except e \<Rightarrow>
          Some (s\<lparr>salida := salida s @ [AvisoErrorHilo e], ph := S_finally\<rparr>)
      | S_finally \<Rightarrow>
          Some (s\<lparr>hilo_terminado := True,
                  historia := historia s @ [Escribe Secundario Bandera 122],
                  ph := S_terminado\<rparr>)
      | S_terminado \<Rightarrow> None)"

subsection \<open>The menu functions (lines 128-183)\<close>

definition mostrar_menu :: "estado \<Rightarrow> estado" where
  "mostrar_menu s = s\<lparr>salida := salida s @ [MenuMostrado]\<rparr>"

definition mostrar_hora_actual :: "estado \<Rightarrow> estado" where
  "mostrar_hora_actual s = s\<lparr>salida := salida s @ [Hora]\<rparr>"

definition mensajes :: "string list" where
  "mensajes =
     [[CHR 0xA1] @ ''Que tengas un excelente d'' @ [CHR 0xED] @ ''a!'',
      ''El trabajo duro siempre da sus frutos'',
      ''Sigue aprendiendo Python, '' @ [CHR 0xA1] @ ''vas muy bien!'',
      ''Recuerda hacer pausas mientras programas'',
      ''La pr'' @ [CHR 0xE1] @ ''ctica hace al maestro'']"

definition mostrar_mensaje :: "estado \<Rightarrow> estado" where
  "mostrar_mensaje s =
     s\<lparr>salida := salida s @ [Mensaje (choice (azar s 0) mensajes)],
       azar := (\<lambda>i. azar s (Suc i))\<rparr>"

text \<open>\<open>calcular_suma\<close>: \<open>input()\<close> at the end of the input raises \<open>EOFError\<close>, which the
  function does not catch; a string that \<open>float()\<close> refuses raises the \<open>ValueError\<close> that it
  does catch, before the second number is asked for. The sum itself is floating-point
  arithmetic and is kept as the pair of its operands.\<close>

definition calcular_suma :: "config \<Rightarrow> estado \<Rightarrow> estado \<times> excepcion option" where
  "calcular_suma cfg s =
     (case entrada s of
        [] \<Rightarrow> (s, Some EOFError)
      | a # r1 \<Rightarrow>
          if \<not> es_float cfg a
          then (s\<lparr>entrada := r1, salida := salida s @ [SumaError]\<rparr>, None)
          else (case r1 of
                  [] \<Rightarrow> (s\<lparr>entrada := r1\<rparr>, Some EOFError)
                | b # r2 \<Rightarrow>
                    if \<not> es_float cfg b
                    then (s\<lparr>entrada := r2, salida := salida s @ [SumaError]\<rparr>, None)
                    else (s\<lparr>entrada := r2, salida := salida s @ [Suma a b]\<rparr>, None)))"

subsection \<open>\<open>main\<close> (lines 188-274) with \<open>mostrar_estado_contador\<close> (lines 158-173),
  one atomic step at a time\<close>

text \<open>
  A step of the main thread. It is \<open>None\<close> when the thread cannot move: it has finished,
  an exception has left \<open>main\<close>, it waits for the semaphore, or it waits in \<open>join\<close> for
  the secondary thread to finish. Each step holds at most one access to a shared
  variable or to the semaphore. The pause of line 257 changes nothing and is not a step
  of its own. The prompts of \<open>input\<close> are not recorded. The header of the final result
  (lines 262-264) is printed by the step that leaves the loop, before the semaphore is
  asked for.
\<close>

definition paso_main :: "config \<Rightarrow> estado \<Rightarrow> estado option" where
  "paso_main cfg s =
     (case pp s of
        P_generar \<Rightarrow>
          (case generar_fichero_grande (nombre_archivo cfg) (num_lineas cfg)
                  (s\<lparr>salida := salida s @ [Cabecera]\<rparr>) of
             (s1, None) \<Rightarrow> Some (s1\<lparr>pp := P_lanzar\<rparr>)
           | (s1, Some e) \<Rightarrow> Some (s1\<lparr>pp := P_abortado e\<rparr>))
      | P_lanzar \<Rightarrow> Some (s\<lparr>ph := S_inicio, pp := P_menu\<rparr>)
      | P_menu \<Rightarrow>
          (let s1 = mostrar_menu s in
           case entrada s1 of
             [] \<Rightarrow> Some (s1\<lparr>pp := P_abortado EOFError\<rparr>)
           | l # resto \<Rightarrow>
               (let opcion = strip l; s2 = s1\<lparr>entrada := resto\<rparr> in
                if opcion = ''1'' then Some (mostrar_hora_actual s2)
                else if opcion = ''2'' then Some (mostrar_mensaje s2)
                else if opcion = ''3'' then Some (s2\<lparr>pp := P_estado_adquirir\<rparr>)
                else if opcion = ''4'' then
                  (case calcular_suma cfg s2 of
                     (s3, None) \<Rightarrow> Some s3
                   | (s3, Some e) \<Rightarrow> Some (s3\<lparr>pp := P_abortado e\<rparr>))
                else if opcion = ''5'' then
                  Some (s2\<lparr>salida := salida s2 @ [Saliendo], pp := P_salir\<rparr>)
                else Some (s2\<lparr>salida := salida s2 @ [NoValida]\<rparr>)))
      | P_estado_adquirir \<Rightarrow>
          (if semaforo s = 0 then None
           else Some (s\<lparr>semaforo := semaforo s - 1,
                        historia := historia s @ [Adquiere Principal 164],
                        pp := P_estado_bandera\<rparr>))
      | P_estado_bandera \<Rightarrow>
          Some (s\<lparr>historia := historia s @ [Lee Principal Bandera 167],
                  pp := P_estado_contador (hilo_terminado s)\<rparr>)
      | P_estado_contador terminado \<Rightarrow>
          Some (s\<lparr>historia := historia s @
                    [Lee Principal Contador (if terminado then 168 else 170)],
                  salida := salida s @
                    [if terminado then ConteoFinalizado (contador_errores s)
                     else ConteoEnCurso (contador_errores s)],
                  pp := P_estado_liberar\<rparr>)
      | P_estado_liberar \<Rightarrow>
          Some (s\<lparr>semaforo := semaforo s + 1,
                  historia := historia s @ [Libera Principal 173],
                  pp := P_menu\<rparr>)
      | P_salir \<Rightarrow>
          (if \<not> hilo_terminado s
           then Some (s\<lparr>historia := historia s @ [Lee Principal Bandera 248],
                        salida := salida s @ [Esperando],
                        pp := P_join\<rparr>)
           else Some (s\<lparr>historia := historia s @ [Lee Principal Bandera 248],
                        salida := salida s @ [CabeceraFinal],
                        pp := P_final_adquirir\<rparr>))
      | P_join \<Rightarrow>
          (if ph s = S_terminado
           then Some (s\<lparr>salida := salida s @ [CabeceraFinal], pp := P_final_adquirir\<rparr>)
           else None)
      | P_final_adquirir \<Rightarrow>
          (if semaforo s = 0 then None
           else Some (s\<lparr>semaforo := semaforo s - 1,
                        historia := historia s @ [Adquiere Principal 267],
                        pp := P_final_leer\<rparr>))
      | P_final_leer \<Rightarrow>
          Some (s\<lparr>historia := historia s @ [Lee Principal Contador 269],
                  salida := salida s @
                    [ResultadoFinal (palabra_clave cfg) (contador_errores s)],
                  pp := P_final_liberar\<rparr>)
      | P_final_liberar \<Rightarrow>
          Some (s\<lparr>semaforo := semaforo s + 1,
                  historia := historia s @ [Libera Principal 271],
                  salida := salida s @ [Despedida],
                  pp := P_terminado\<rparr>)
      | P_terminado \<Rightarrow> None
      | P_abortado e \<Rightarrow> None)"

subsection \<open>The two threads together\<close>

text \<open>
  What the model takes from the environment: the file system belongs to the process
  (a file that exists can be read, and nobody else changes it), \<open>print\<close> does not fail,
  and no signal interrupts a thread. Reads and writes of the module-level variables are
  atomic and seen by both threads in the order of the steps, as the interpreter lock
  gives them.
\<close>

text \<open>The thread that the scheduler picks takes its next step. The secondary thread was
  created with the arguments \<open>(nombre_archivo, palabra_clave)\<close> (lines 217-220).\<close>

definition paso :: "config \<Rightarrow> hilo \<Rightarrow> estado \<Rightarrow> estado option" where
  "paso cfg h s =
     (case h of
        Principal \<Rightarrow> paso_main cfg s
      | Secundario \<Rightarrow>
          paso_contar_errores_en_fichero (nombre_archivo cfg) (palabra_clave cfg) s)"

text \<open>An execution follows a plan: the list of the threads in the order in which the
  scheduler picks them. A plan that picks a thread that cannot move is not an
  execution.\<close>

fun ejecutar :: "config \<Rightarrow> hilo list \<Rightarrow> estado \<Rightarrow> estado option" where
  "ejecutar cfg [] s = Some s"
| "ejecutar cfg (h # plan) s =
     (case paso cfg h s of None \<Rightarrow> None | Some s1 \<Rightarrow> ejecutar cfg plan s1)"

text \<open>
  The state in which the process starts: nothing printed, the module-level variables as
  lines 14-21 initialise them, no thread started. \<open>main\<close> begins either at its first
  line, or (to run the program on a file system as it is given, without generating the
  file) at the creation of the secondary thread.
\<close>

definition arranque :: "estado \<Rightarrow> bool" where
  "arranque s \<longleftrightarrow>
     (pp s = P_generar \<or> pp s = P_lanzar) \<and> ph s = S_no_lanzado \<and>
     contador_errores s = 0 \<and> semaforo s = 1 \<and> \<not> hilo_terminado s \<and>
     salida s = [] \<and> historia s = []"

definition estado_inicial ::
    "pc_principal \<Rightarrow> (string \<Rightarrow> string option) \<Rightarrow> (string \<Rightarrow> bool) \<Rightarrow> (nat \<Rightarrow> nat) \<Rightarrow>
     string list \<Rightarrow> estado" where
  "estado_inicial p fs esc rnd ent =
     \<lparr>ficheros = fs, escribible = esc, azar = rnd, entrada = ent, salida = [],
      contador_errores = 0, semaforo = 1, hilo_terminado = False,
      pp = p, ph = S_no_lanzado, historia = []\<rparr>"

text \<open>The constants of lines 202-204.\<close>

definition config_main :: "(string \<Rightarrow> bool) \<Rightarrow> config" where
  "config_main f =
     \<lparr>nombre_archivo = ''log_grande.txt'', palabra_clave = ''ERROR'', num_lineas = 5000,
      es_float = f\<rparr>"

section \<open>Notions used by the properties\<close>

text \<open>The reference count, computed independently of the program: the number of lines
  of the text of which the keyword is a contiguous piece (\<open>sublist\<close>: the line is
  \<open>ps @ k @ ss\<close> for some \<open>ps\<close> and \<open>ss\<close>).\<close>

definition ocurrencias :: "string \<Rightarrow> string \<Rightarrow> int" where
  "ocurrencias k t = int (length (filter (sublist k) (readlines t)))"

text \<open>The count that a complete scan of the file of the configuration gives; 0 when the
  file does not exist.\<close>

definition total :: "config \<Rightarrow> estado \<Rightarrow> int" where
  "total cfg s =
     (case ficheros s (nombre_archivo cfg) of
        None \<Rightarrow> 0
      | Some t \<Rightarrow> ocurrencias (palabra_clave cfg) t)"

text \<open>The program points between an \<open>acquire\<close> and the \<open>release\<close> that follows it.\<close>

fun en_sc_s :: "pc_secundario \<Rightarrow> bool" where
  "en_sc_s (S_escribir c) = True"
| "en_sc_s (S_liberar c) = True"
| "en_sc_s p = False"

fun en_sc_p :: "pc_principal \<Rightarrow> bool" where
  "en_sc_p P_estado_bandera = True"
| "en_sc_p (P_estado_contador b) = True"
| "en_sc_p P_estado_liberar = True"
| "en_sc_p P_final_leer = True"
| "en_sc_p P_final_liberar = True"
| "en_sc_p p = False"

text \<open>Reading a history: who made an event, whether it touches a shared variable, and
  whether a thread holds the semaphore after a history (it has acquired it more often
  than it has released it).\<close>

fun autor :: "acceso \<Rightarrow> hilo" where
  "autor (Adquiere h l) = h"
| "autor (Libera h l) = h"
| "autor (Lee h c l) = h"
| "autor (Escribe h c l) = h"

fun toca :: "campo \<Rightarrow> acceso \<Rightarrow> bool" where
  "toca c (Lee h c1 l) = (c1 = c)"
| "toca c (Escribe h c1 l) = (c1 = c)"
| "toca c a = False"

fun es_adquiere :: "hilo \<Rightarrow> acceso \<Rightarrow> bool" where
  "es_adquiere h (Adquiere h1 l) = (h1 = h)"
| "es_adquiere h a = False"

fun es_libera :: "hilo \<Rightarrow> acceso \<Rightarrow> bool" where
  "es_libera h (Libera h1 l) = (h1 = h)"
| "es_libera h a = False"

fun es_escritura :: "campo \<Rightarrow> acceso \<Rightarrow> bool" where
  "es_escritura c (Escribe h c1 l) = (c1 = c)"
| "es_escritura c a = False"

definition saldo :: "hilo \<Rightarrow> acceso list \<Rightarrow> int" where
  "saldo h hist =
     int (length (filter (es_adquiere h) hist)) - int (length (filter (es_libera h) hist))"

definition tiene :: "hilo \<Rightarrow> acceso list \<Rightarrow> bool" where
  "tiene h hist \<longleftrightarrow> 0 < saldo h hist"

text \<open>The accesses to shared variables that a history holds and whose author did not
  hold the semaphore at that moment; \<open>visto\<close> is the history before them.\<close>

fun desprotegidos_tras :: "acceso list \<Rightarrow> acceso list \<Rightarrow> acceso list" where
  "desprotegidos_tras visto [] = []"
| "desprotegidos_tras visto (a # r) =
     (if (toca Contador a \<or> toca Bandera a) \<and> \<not> tiene (autor a) visto then [a] else [])
     @ desprotegidos_tras (visto @ [a]) r"

definition desprotegidos :: "acceso list \<Rightarrow> acceso list" where
  "desprotegidos hist = desprotegidos_tras [] hist"

definition escrituras :: "campo \<Rightarrow> acceso list \<Rightarrow> acceso list" where
  "escrituras c hist = filter (es_escritura c) hist"

text \<open>Whether the secondary thread stands after its assignment of line 107.\<close>

fun es_liberar :: "pc_secundario \<Rightarrow> bool" where
  "es_liberar (S_liberar c) = True"
| "es_liberar p = False"

definition ya_escrito :: "config \<Rightarrow> estado \<Rightarrow> bool" where
  "ya_escrito cfg s \<longleftrightarrow>
     es_liberar (ph s) \<or>
     (ph s = S_finally \<or> ph s = S_terminado) \<and> ficheros s (nombre_archivo cfg) \<noteq> None"

subsection \<open>The invariant of the executions\<close>

definition inv_sem :: "estado \<Rightarrow> bool" where
  "inv_sem s \<longleftrightarrow>
     semaforo s + (if en_sc_s (ph s) then 1 else 0) + (if en_sc_p (pp s) then 1 else 0) = 1"

definition inv_hilo :: "config \<Rightarrow> estado \<Rightarrow> bool" where
  "inv_hilo cfg s \<longleftrightarrow>
     (case ph s of
        S_no_lanzado \<Rightarrow>
          contador_errores s = 0 \<and> \<not> hilo_terminado s \<and>
          (pp s = P_generar \<or> pp s = P_lanzar \<or> (\<exists>e. pp s = P_abortado e))
      | S_inicio \<Rightarrow> contador_errores s = 0 \<and> \<not> hilo_terminado s
      | S_bucle ls i c \<Rightarrow>
          contador_errores s = 0 \<and> \<not> hilo_terminado s \<and> i \<le> length ls \<and>
          c = int (length (filter (sublist (palabra_clave cfg)) (take i ls))) \<and>
          (\<exists>t. ficheros s (nombre_archivo cfg) = Some t \<and> ls = readlines t)
      | S_adquirir c \<Rightarrow>
          contador_errores s = 0 \<and> \<not> hilo_terminado s \<and> c = total cfg s \<and>
          ficheros s (nombre_archivo cfg) \<noteq> None
      | S_escribir c \<Rightarrow>
          contador_errores s = 0 \<and> \<not> hilo_terminado s \<and> c = total cfg s \<and>
          ficheros s (nombre_archivo cfg) \<noteq> None
      | S_liberar c \<Rightarrow>
          contador_errores s = total cfg s \<and> \<not> hilo_terminado s \<and> c = total cfg s \<and>
          ficheros s (nombre_archivo cfg) \<noteq> None
      | S_except e \<Rightarrow>
          contador_errores s = 0 \<and> \<not> hilo_terminado s \<and> e = FileNotFoundError \<and>
          ficheros s (nombre_archivo cfg) = None
      | S_finally \<Rightarrow> contador_errores s = total cfg s \<and> \<not> hilo_terminado s
      | S_terminado \<Rightarrow> contador_errores s = total cfg s \<and> hilo_terminado s) \<and>
     (pp s = P_generar \<or> pp s = P_lanzar \<longrightarrow> ph s = S_no_lanzado)"

definition inv_main :: "config \<Rightarrow> estado \<Rightarrow> bool" where
  "inv_main cfg s \<longleftrightarrow>
     (case pp s of
        P_estado_contador b \<Rightarrow> b \<longrightarrow> ph s = S_terminado
      | P_final_adquirir \<Rightarrow> ph s = S_terminado
      | P_final_leer \<Rightarrow> ph s = S_terminado
      | P_final_liberar \<Rightarrow>
          ph s = S_terminado \<and>
          ResultadoFinal (palabra_clave cfg) (total cfg s) \<in> set (salida s)
      | P_terminado \<Rightarrow>
          ph s = S_terminado \<and>
          ResultadoFinal (palabra_clave cfg) (total cfg s) \<in> set (salida s)
      | P_abortado e \<Rightarrow> e = EOFError \<or> e = PermissionError \<and> ph s = S_no_lanzado
      | _ \<Rightarrow> True)"

definition inv_hist :: "config \<Rightarrow> estado \<Rightarrow> bool" where
  "inv_hist cfg s \<longleftrightarrow>
     saldo Secundario (historia s) = (if en_sc_s (ph s) then 1 else 0) \<and>
     saldo Principal (historia s) = (if en_sc_p (pp s) then 1 else 0) \<and>
     set (desprotegidos (historia s)) \<subseteq>
       {Escribe Secundario Bandera 122, Lee Principal Bandera 248} \<and>
     escrituras Contador (historia s) =
       (if ya_escrito cfg s then [Escribe Secundario Contador 107] else []) \<and>
     escrituras Bandera (historia s) =
       (if ph s = S_terminado then [Escribe Secundario Bandera 122] else [])"

text \<open>What a printed message says about the state in which it is found.\<close>

fun aviso_ok :: "config \<Rightarrow> estado \<Rightarrow> aviso \<Rightarrow> bool" where
  "aviso_ok cfg s (ConteoFinalizado n) = (ph s = S_terminado \<and> n = total cfg s)"
| "aviso_ok cfg s (ConteoEnCurso n) =
     (ph s \<noteq> S_no_lanzado \<and> (n = 0 \<or> n = total cfg s \<and> ya_escrito cfg s))"
| "aviso_ok cfg s (ResultadoFinal k n) =
     (ph s = S_terminado \<and> k = palabra_clave cfg \<and> n = total cfg s)"
| "aviso_ok cfg s (AvisoErrorHilo e) =
     (ph s \<noteq> S_no_lanzado \<and> e = FileNotFoundError \<and>
      ficheros s (nombre_archivo cfg) = None)"
| "aviso_ok cfg s (AvisoFinHilo n k) =
     (ya_escrito cfg s \<and> k = palabra_clave cfg \<and> n = total cfg s)"
| "aviso_ok cfg s a = True"

definition inv_salida :: "config \<Rightarrow> estado \<Rightarrow> bool" where
  "inv_salida cfg s \<longleftrightarrow> (\<forall>a \<in> set (salida s). aviso_ok cfg s a)"

definition inv :: "config \<Rightarrow> estado \<Rightarrow> bool" where
  "inv cfg s \<longleftrightarrow>
     inv_sem s \<and> inv_hilo cfg s \<and> inv_main cfg s \<and> inv_hist cfg s \<and> inv_salida cfg s"

text \<open>The messages that say nothing about the count or about the secondary thread.\<close>

fun neutro :: "aviso \<Rightarrow> bool" where
  "neutro (ConteoFinalizado n) = False"
| "neutro (ConteoEnCurso n) = False"
| "neutro (ResultadoFinal k n) = False"
| "neutro (AvisoErrorHilo e) = False"
| "neutro (AvisoFinHilo n k) = False"
| "neutro a = True"





subsection \<open>A small concrete run\<close>

text \<open>A configuration, a file of three lines of which two hold the keyword (the last
  one without terminator), and the states from which the examples start: the process
  about to create the secondary thread, and the process at the menu just after it.\<close>

definition cfg_ejemplo :: config where
  "cfg_ejemplo =
     \<lparr>nombre_archivo = ''log.txt'', palabra_clave = ''ERROR'', num_lineas = 3,
      es_float = (\<lambda>x. False)\<rparr>"

definition fichero_ejemplo :: string where
  "fichero_ejemplo = ''ERROR: uno'' @ [nl] @ ''INFO: dos'' @ [nl] @ ''otro ERROR''"

definition inicio_ejemplo :: "string list \<Rightarrow> estado" where
  "inicio_ejemplo ent =
     estado_inicial P_lanzar [''log.txt'' \<mapsto> fichero_ejemplo] (\<lambda>x. True) (\<lambda>i. i) ent"

definition menu_ejemplo :: "string list \<Rightarrow> estado" where
  "menu_ejemplo ent = (inicio_ejemplo ent)\<lparr>ph := S_inicio, pp := P_menu\<rparr>"

definition entrada_ejemplo :: "string list" where
  "entrada_ejemplo = ['' 3'', ''x'', ''5'']"

text \<open>Plans for that run. In the first the secondary thread runs alone to its
  end. In
  the second the user asks for the status and leaves while the file is being read, so
  that the main thread waits in \<open>join\<close>; the wait is reached at the end of its first part.\<close>

definition plan_hilo_solo :: "hilo list" where
  "plan_hilo_solo =
     [Principal, Secundario, Secundario, Secundario, Secundario, Secundario, Secundario,
      Secundario, Secundario, Secundario]"

definition plan_hasta_join :: "hilo list" where
  "plan_hasta_join =
     [Principal, Secundario, Secundario, Principal, Principal, Principal, Principal,
      Principal, Principal, Principal, Principal]"

definition plan_espera :: "hilo list" where
  "plan_espera =
     plan_hasta_join @
     [Secundario, Secundario, Secundario, Secundario, Secundario, Secundario, Secundario,
      Principal, Principal, Principal, Principal]"

text \<open>The unprotected accesses of the execution of a plan (none when the plan is not an
  execution).\<close>

definition accesos_desprotegidos :: "config \<Rightarrow> hilo list \<Rightarrow> estado \<Rightarrow> acceso list" where
  "accesos_desprotegidos cfg plan s0 =
     (case ejecutar cfg plan s0 of None \<Rightarrow> [] | Some s \<Rightarrow> desprotegidos (historia s))"





section \<open>The invariant holds in every execution\<close>

lemma contiene_sublist: "contiene k l = sublist k l"
  by (induction l) (auto simp: sublist_Cons_right)

lemmas pasos_main = paso_main_def Let_def generar_fichero_grande_def
      mostrar_menu_def mostrar_hora_actual_def mostrar_mensaje_def

lemmas pasos_hilo = paso_contar_errores_en_fichero_def Let_def leer_fichero_def

lemma calcular_suma_frame:
  "calcular_suma cfg s = (s1, e) \<Longrightarrow>
     ficheros s1 = ficheros s \<and> escribible s1 = escribible s \<and>
     contador_errores s1 = contador_errores s \<and>
     semaforo s1 = semaforo s \<and> hilo_terminado s1 = hilo_terminado s \<and>
     pp s1 = pp s \<and> ph s1 = ph s \<and> historia s1 = historia s \<and>
     (e = None \<or> e = Some EOFError) \<and>
     (\<exists>extra. salida s1 = salida s @ extra \<and> (\<forall>x \<in> set extra. neutro x))"
  by (auto simp: calcular_suma_def split: list.splits if_splits)

lemma saldo_snoc [simp]:
  "saldo h (hist @ [a]) =
     saldo h hist + (if es_adquiere h a then 1 else 0) - (if es_libera h a then 1 else 0)"
  by (simp add: saldo_def)

lemma saldo_Nil [simp]: "saldo h [] = 0"
  by (simp add: saldo_def)

lemma desprotegidos_tras_snoc:
  "desprotegidos_tras visto (r @ [a]) =
     desprotegidos_tras visto r @
     (if (toca Contador a \<or> toca Bandera a) \<and> \<not> tiene (autor a) (visto @ r) then [a] else [])"
  by (induction r arbitrary: visto) auto

lemma desprotegidos_snoc [simp]:
  "desprotegidos (hist @ [a]) =
     desprotegidos hist @
     (if (toca Contador a \<or> toca Bandera a) \<and> \<not> tiene (autor a) hist then [a] else [])"
  by (simp add: desprotegidos_def desprotegidos_tras_snoc)

lemma desprotegidos_Nil [simp]: "desprotegidos [] = []"
  by (simp add: desprotegidos_def)

lemma escrituras_snoc [simp]:
  "escrituras c (hist @ [a]) = escrituras c hist @ (if es_escritura c a then [a] else [])"
  by (simp add: escrituras_def)

lemma escrituras_Nil [simp]: "escrituras c [] = []"
  by (simp add: escrituras_def)

lemma inv_sem_hilo:
  assumes "inv_sem s" "paso_contar_errores_en_fichero n k s = Some s1"
  shows "inv_sem s1"
  using assms
  by (cases "ph s") (auto simp: inv_sem_def pasos_hilo split: sum.splits if_splits option.splits)

lemma inv_hilo_hilo:
  assumes "inv_hilo cfg s"
    "paso_contar_errores_en_fichero (nombre_archivo cfg) (palabra_clave cfg) s = Some s1"
  shows "inv_hilo cfg s1"
  using assms
  by (cases "ph s")
     (auto simp: inv_hilo_def pasos_hilo total_def ocurrencias_def take_Suc_conv_app_nth
        contiene_sublist split: sum.splits if_splits option.splits)


lemma paso_hilo_frame:
  assumes "paso_contar_errores_en_fichero n k s = Some s1"
  shows "pp s1 = pp s \<and> ficheros s1 = ficheros s \<and> entrada s1 = entrada s \<and>
    set (salida s) \<subseteq> set (salida s1) \<and> ph s \<noteq> S_terminado \<and> ph s \<noteq> S_no_lanzado"
  using assms
  by (cases "ph s") (auto simp: pasos_hilo split: sum.splits if_splits option.splits)

lemma total_cong: "ficheros s1 = ficheros s \<Longrightarrow> total cfg s1 = total cfg s"
  by (simp add: total_def)

lemma inv_main_hilo:
  assumes "inv_main cfg s"
    "paso_contar_errores_en_fichero (nombre_archivo cfg) (palabra_clave cfg) s = Some s1"
  shows "inv_main cfg s1"
proof -
  note f = paso_hilo_frame [OF assms(2)]
  show ?thesis
    using assms(1) f by (cases "pp s") (auto simp: inv_main_def)
qed



lemma inv_hist_hilo:
  assumes "inv_hist cfg s" "inv_hilo cfg s"
    "paso_contar_errores_en_fichero (nombre_archivo cfg) (palabra_clave cfg) s = Some s1"
  shows "inv_hist cfg s1"
proof (cases "ph s")
  case S_inicio
  with assms show ?thesis
    by (clarsimp simp: pasos_hilo inv_hist_def ya_escrito_def split: option.splits)
next
  case (S_bucle ls i c)
  with assms show ?thesis
    by (clarsimp simp: pasos_hilo inv_hist_def ya_escrito_def split: if_splits)
next
  case (S_adquirir c)
  with assms(1,3) show ?thesis
    by (simp add: pasos_hilo split: if_splits) (clarsimp simp: inv_hist_def ya_escrito_def tiene_def)
next
  case (S_escribir c)
  with assms(1,3) show ?thesis
    by (simp add: pasos_hilo) (clarsimp simp: inv_hist_def ya_escrito_def tiene_def)
next
  case (S_liberar c)
  with assms show ?thesis
    by (simp add: pasos_hilo) (clarsimp simp: inv_hist_def inv_hilo_def ya_escrito_def tiene_def)
next
  case (S_except e)
  with assms show ?thesis
    by (simp add: pasos_hilo) (clarsimp simp: inv_hist_def inv_hilo_def ya_escrito_def tiene_def)
next
  case S_finally
  with assms(1,3) show ?thesis
    by (simp add: pasos_hilo) (clarsimp simp: inv_hist_def ya_escrito_def tiene_def)
qed (use assms in \<open>simp_all add: pasos_hilo\<close>)



lemma paso_menu:
  assumes "pp s = P_menu" "paso_main cfg s = Some s1"
  shows "ficheros s1 = ficheros s \<and> contador_errores s1 = contador_errores s \<and>
     semaforo s1 = semaforo s \<and> hilo_terminado s1 = hilo_terminado s \<and>
     ph s1 = ph s \<and> historia s1 = historia s \<and> escribible s1 = escribible s \<and>
     (pp s1 = P_menu \<or> pp s1 = P_estado_adquirir \<or> pp s1 = P_salir \<or>
      pp s1 = P_abortado EOFError) \<and>
     (\<exists>extra. salida s1 = salida s @ extra \<and> (\<forall>x \<in> set extra. neutro x))"
proof (cases "entrada s")
  case Nil
  with assms show ?thesis by (auto simp: pasos_main)
next
  case (Cons l resto)
  show ?thesis
  proof (cases "strip l = ''4''")
    case True
    obtain s3 e where c: "calcular_suma cfg (s\<lparr>salida := salida s @ [MenuMostrado], entrada := resto\<rparr>) = (s3, e)"
      by (cases "calcular_suma cfg (s\<lparr>salida := salida s @ [MenuMostrado], entrada := resto\<rparr>)")
    note f = calcular_suma_frame [OF c]
    from f obtain extra where x: "salida s3 = salida s @ MenuMostrado # extra" "\<forall>x \<in> set extra. neutro x"
      by auto
    from x have "\<exists>extra. salida s3 = salida s @ extra \<and> (\<forall>x \<in> set extra. neutro x)"
      by (intro exI [of _ "MenuMostrado # extra"]) simp
    with assms Cons True c f show ?thesis
      by (cases e) (auto simp: pasos_main)
  next
    case False
    with assms Cons show ?thesis
      by (auto simp: pasos_main split: if_splits)
  qed
qed


lemma paso_main_frame:
  assumes "paso_main cfg s = Some s1"
  shows "contador_errores s1 = contador_errores s \<and> hilo_terminado s1 = hilo_terminado s \<and>
     (pp s \<noteq> P_lanzar \<longrightarrow> ph s1 = ph s) \<and>
     (pp s \<noteq> P_generar \<longrightarrow> ficheros s1 = ficheros s) \<and>
     (\<forall>e. pp s \<noteq> P_abortado e) \<and> pp s \<noteq> P_terminado"
proof (cases "pp s")
  case P_menu
  with paso_menu [OF P_menu assms] show ?thesis by simp
qed (use assms in \<open>auto simp: pasos_main split: if_splits\<close>)

lemma paso_main_pp:
  assumes "paso_main cfg s = Some s1" "pp s \<noteq> P_generar" "pp s \<noteq> P_lanzar"
  shows "pp s1 \<noteq> P_generar \<and> pp s1 \<noteq> P_lanzar \<and> (\<forall>e. pp s1 = P_abortado e \<longrightarrow> e = EOFError)"
proof (cases "pp s")
  case P_menu
  with paso_menu [OF P_menu assms(1)] show ?thesis by auto
qed (use assms in \<open>auto simp: pasos_main split: if_splits\<close>)

lemma inv_hilo_main:
  assumes "inv_hilo cfg s" "paso_main cfg s = Some s1"
  shows "inv_hilo cfg s1"
proof (cases "pp s = P_generar \<or> pp s = P_lanzar")
  case True
  with assms show ?thesis
    by (auto simp: inv_hilo_def pasos_main split: if_splits)
next
  case False
  note f = paso_main_frame [OF assms(2)] paso_main_pp [OF assms(2)]
  from False f have a: "ph s1 = ph s" "ficheros s1 = ficheros s"
      "contador_errores s1 = contador_errores s" "hilo_terminado s1 = hilo_terminado s"
      "pp s1 \<noteq> P_generar" "pp s1 \<noteq> P_lanzar"
    by auto
  from False assms(1) have "ph s \<noteq> S_no_lanzado"
    using f(1) by (auto simp: inv_hilo_def)
  with assms(1) False show ?thesis
    unfolding inv_hilo_def a total_def using a(5,6)
    by (simp split: pc_secundario.splits)
qed

lemma inv_sem_main:
  assumes "inv_sem s" "inv_hilo cfg s" "paso_main cfg s = Some s1"
  shows "inv_sem s1"
proof (cases "pp s")
  case P_menu
  with paso_menu [OF P_menu assms(3)] assms(1) show ?thesis
    by (auto simp: inv_sem_def)
qed (use assms in \<open>simp_all add: pasos_main split: if_splits\<close>,
     auto simp: inv_sem_def inv_hilo_def)


lemma inv_main_main:
  assumes "inv_main cfg s" "inv_hilo cfg s" "paso_main cfg s = Some s1"
  shows "inv_main cfg s1"
proof (cases "pp s")
  case P_menu
  with paso_menu [OF P_menu assms(3)] assms(1) show ?thesis
    by (auto simp: inv_main_def)
next
  case P_estado_bandera
  with assms show ?thesis
    by (simp add: pasos_main) (auto simp: inv_main_def inv_hilo_def split: pc_secundario.splits)
next
  case P_salir
  with assms show ?thesis
    by (simp add: pasos_main split: if_splits)
       (auto simp: inv_main_def inv_hilo_def split: pc_secundario.splits)
qed (use assms in \<open>simp_all add: pasos_main split: if_splits\<close>,
     auto simp: inv_main_def inv_hilo_def total_def)


lemma total_upd [simp]:
  "total cfg (s\<lparr>escribible := a1\<rparr>) = total cfg s"
  "total cfg (s\<lparr>azar := a2\<rparr>) = total cfg s"
  "total cfg (s\<lparr>entrada := a3\<rparr>) = total cfg s"
  "total cfg (s\<lparr>salida := a4\<rparr>) = total cfg s"
  "total cfg (s\<lparr>contador_errores := a5\<rparr>) = total cfg s"
  "total cfg (s\<lparr>semaforo := a6\<rparr>) = total cfg s"
  "total cfg (s\<lparr>hilo_terminado := a7\<rparr>) = total cfg s"
  "total cfg (s\<lparr>pp := a8\<rparr>) = total cfg s"
  "total cfg (s\<lparr>ph := a9\<rparr>) = total cfg s"
  "total cfg (s\<lparr>historia := a10\<rparr>) = total cfg s"
  by (simp_all add: total_def)

lemma ya_escrito_upd [simp]:
  "ya_escrito cfg (s\<lparr>escribible := a1\<rparr>) = ya_escrito cfg s"
  "ya_escrito cfg (s\<lparr>azar := a2\<rparr>) = ya_escrito cfg s"
  "ya_escrito cfg (s\<lparr>entrada := a3\<rparr>) = ya_escrito cfg s"
  "ya_escrito cfg (s\<lparr>salida := a4\<rparr>) = ya_escrito cfg s"
  "ya_escrito cfg (s\<lparr>contador_errores := a5\<rparr>) = ya_escrito cfg s"
  "ya_escrito cfg (s\<lparr>semaforo := a6\<rparr>) = ya_escrito cfg s"
  "ya_escrito cfg (s\<lparr>hilo_terminado := a7\<rparr>) = ya_escrito cfg s"
  "ya_escrito cfg (s\<lparr>pp := a8\<rparr>) = ya_escrito cfg s"
  "ya_escrito cfg (s\<lparr>historia := a10\<rparr>) = ya_escrito cfg s"
  by (simp_all add: ya_escrito_def)

lemma ya_escrito_cong:
  "ph s1 = ph s \<Longrightarrow> ficheros s1 = ficheros s \<Longrightarrow> ya_escrito cfg s1 = ya_escrito cfg s"
  by (simp add: ya_escrito_def)

lemma ya_escrito_no_lanzado:
  "ph s = S_no_lanzado \<or> ph s = S_inicio \<Longrightarrow> \<not> ya_escrito cfg s"
  by (auto simp add: ya_escrito_def)

lemma inv_hist_main:
  assumes "inv_hist cfg s" "inv_hilo cfg s" "paso_main cfg s = Some s1"
  shows "inv_hist cfg s1"
proof (cases "pp s")
  case P_menu
  note m = paso_menu [OF P_menu assms(3)]
  from m have y: "ya_escrito cfg s1 = ya_escrito cfg s"
    by (intro ya_escrito_cong) simp_all
  from m have e: "historia s1 = historia s" "ph s1 = ph s" "\<not> en_sc_p (pp s1)"
    by auto
  from assms(1) P_menu e(3) show ?thesis
    unfolding inv_hist_def e y by simp
next
  case P_generar
  with assms have "ph s = S_no_lanzado" "ph s1 = S_no_lanzado" "historia s1 = historia s" "\<not> en_sc_p (pp s1)"
    by (auto simp: inv_hilo_def pasos_main split: if_splits)
  with assms(1) P_generar show ?thesis
    by (simp add: inv_hist_def ya_escrito_no_lanzado)
next
  case P_lanzar
  with assms have "ph s = S_no_lanzado" "ph s1 = S_inicio" "historia s1 = historia s" "\<not> en_sc_p (pp s1)"
    by (auto simp: inv_hilo_def pasos_main split: if_splits)
  with assms(1) P_lanzar show ?thesis
    by (simp add: inv_hist_def ya_escrito_no_lanzado)
next
  case P_estado_adquirir
  with assms(1,3) show ?thesis
    by (clarsimp simp: pasos_main split: if_splits) (clarsimp simp: inv_hist_def tiene_def)
next
  case P_estado_bandera
  with assms(1,3) show ?thesis
    by (clarsimp simp: pasos_main) (clarsimp simp: inv_hist_def tiene_def)
next
  case (P_estado_contador b)
  with assms(1,3) show ?thesis
    by (clarsimp simp: pasos_main) (clarsimp simp: inv_hist_def tiene_def)
next
  case P_estado_liberar
  with assms(1,3) show ?thesis
    by (clarsimp simp: pasos_main) (clarsimp simp: inv_hist_def tiene_def)
next
  case P_salir
  with assms(1,3) show ?thesis
    by (cases "hilo_terminado s"; clarsimp simp: pasos_main) (clarsimp simp: inv_hist_def tiene_def)+
next
  case P_join
  with assms(1,3) show ?thesis
    by (clarsimp simp: pasos_main split: if_splits) (clarsimp simp: inv_hist_def tiene_def)
next
  case P_final_adquirir
  with assms(1,3) show ?thesis
    by (clarsimp simp: pasos_main split: if_splits) (clarsimp simp: inv_hist_def tiene_def)
next
  case P_final_leer
  with assms(1,3) show ?thesis
    by (clarsimp simp: pasos_main) (clarsimp simp: inv_hist_def tiene_def)
next
  case P_final_liberar
  with assms(1,3) show ?thesis
    by (clarsimp simp: pasos_main) (clarsimp simp: inv_hist_def tiene_def)
qed (use assms(3) in \<open>simp_all add: pasos_main\<close>)

lemma aviso_ok_cong:
  "ph s1 = ph s \<Longrightarrow> ficheros s1 = ficheros s \<Longrightarrow> aviso_ok cfg s1 a = aviso_ok cfg s a"
  by (cases a) (simp_all add: total_def ya_escrito_def)

lemma aviso_ok_neutro: "neutro a \<Longrightarrow> aviso_ok cfg s a"
  by (cases a) simp_all

lemma aviso_ok_no_lanzado: "ph s = S_no_lanzado \<Longrightarrow> aviso_ok cfg s a \<Longrightarrow> neutro a"
  by (cases a) (simp_all add: ya_escrito_def)

lemma inv_salida_paso:
  assumes "inv_salida cfg s" "ph s1 = ph s" "ficheros s1 = ficheros s"
    "salida s1 = salida s @ extra" "\<forall>a \<in> set extra. aviso_ok cfg s1 a"
  shows "inv_salida cfg s1"
  using assms aviso_ok_cong [OF assms(2,3)] by (auto simp: inv_salida_def)

lemma inv_salida_no_lanzado:
  assumes "inv_salida cfg s" "ph s = S_no_lanzado"
    "salida s1 = salida s @ extra" "\<forall>a \<in> set extra. neutro a"
  shows "inv_salida cfg s1"
  using assms by (auto simp: inv_salida_def dest!: aviso_ok_no_lanzado intro: aviso_ok_neutro)

lemma ya_escrito_hilo:
  assumes "inv_hilo cfg s"
    "paso_contar_errores_en_fichero (nombre_archivo cfg) (palabra_clave cfg) s = Some s1"
    "ya_escrito cfg s"
  shows "ya_escrito cfg s1"
proof (cases "ph s")
  case (S_liberar c)
  with assms(1,2) show ?thesis
    by (clarsimp simp: pasos_hilo) (simp add: ya_escrito_def inv_hilo_def)
next
  case S_finally
  with assms(2,3) show ?thesis
    by (clarsimp simp: pasos_hilo) (simp add: ya_escrito_def)
qed (use assms(2,3) in \<open>simp_all add: ya_escrito_def pasos_hilo\<close>)

lemma ph_tras_paso_hilo:
  assumes "paso_contar_errores_en_fichero n k s = Some s1"
  shows "ph s1 \<noteq> S_no_lanzado"
proof (cases "ph s")
  case S_inicio
  with assms show ?thesis
    by (cases "ficheros s n") (auto simp: pasos_hilo)
next
  case (S_bucle ls i c)
  with assms show ?thesis
    by (cases "i < length ls") (auto simp: pasos_hilo)
next
  case (S_adquirir c)
  with assms show ?thesis
    by (cases "semaforo s = 0") (auto simp: pasos_hilo)
qed (use assms in \<open>auto simp: pasos_hilo\<close>)

lemma aviso_ok_hilo:
  assumes "inv_hilo cfg s"
    "paso_contar_errores_en_fichero (nombre_archivo cfg) (palabra_clave cfg) s = Some s1"
    "aviso_ok cfg s a"
  shows "aviso_ok cfg s1 a"
proof -
  note f = paso_hilo_frame [OF assms(2)]
  from f have t: "total cfg s1 = total cfg s" "ficheros s1 = ficheros s" "ph s \<noteq> S_terminado"
    by (simp_all add: total_def)
  note l = ph_tras_paso_hilo [OF assms(2)]
  note y = ya_escrito_hilo [OF assms(1,2)]
  show ?thesis
  proof (cases a)
    case (ConteoEnCurso n)
    with assms(3) t l y show ?thesis by auto
  next
    case (AvisoFinHilo n k)
    with assms(3) t l y show ?thesis by auto
  next
    case (AvisoErrorHilo e)
    with assms(3) t l show ?thesis by auto
  qed (use assms(3) t in simp_all)
qed

lemma inv_salida_hilo:
  assumes "inv_salida cfg s" "inv_hilo cfg s"
    "paso_contar_errores_en_fichero (nombre_archivo cfg) (palabra_clave cfg) s = Some s1"
  shows "inv_salida cfg s1"
proof -
  have old: "\<forall>a \<in> set (salida s). aviso_ok cfg s1 a"
    using aviso_ok_hilo [OF assms(2,3)] assms(1) by (simp add: inv_salida_def)
  have new: "\<forall>a \<in> set (salida s1) - set (salida s). aviso_ok cfg s1 a"
  proof (cases "ph s")
    case S_inicio
    with assms(3) show ?thesis
      by (cases "ficheros s (nombre_archivo cfg)") (auto simp: pasos_hilo)
  next
    case (S_bucle ls i c)
    with assms(3) show ?thesis
      by (cases "i < length ls") (auto simp: pasos_hilo)
  next
    case (S_adquirir c)
    with assms(3) show ?thesis
      by (cases "semaforo s = 0") (auto simp: pasos_hilo)
  next
    case (S_liberar c)
    with assms(2,3) show ?thesis
      by (auto simp: pasos_hilo inv_hilo_def ya_escrito_def)
  next
    case (S_except e)
    with assms(2,3) show ?thesis
      by (auto simp: pasos_hilo inv_hilo_def)
  qed (use assms(3) in \<open>auto simp: pasos_hilo\<close>)
  from old new show ?thesis
    by (auto simp: inv_salida_def)
qed

lemma inv_salida_main:
  assumes "inv_salida cfg s" "inv_hilo cfg s" "inv_main cfg s" "paso_main cfg s = Some s1"
  shows "inv_salida cfg s1"
proof (cases "pp s")
  case P_generar
  with assms(2) have n: "ph s = S_no_lanzado" by (simp add: inv_hilo_def)
  show ?thesis
  proof (cases "escribible s (nombre_archivo cfg)")
    case True
    with assms(4) P_generar
    have "salida s1 = salida s @ [Cabecera, Generando (num_lineas cfg), Generado (nombre_archivo cfg)]"
      by (auto simp: pasos_main)
    moreover have "\<forall>a \<in> set [Cabecera, Generando (num_lineas cfg), Generado (nombre_archivo cfg)]. neutro a"
      by simp
    ultimately show ?thesis
      using assms(1) n by (rule inv_salida_no_lanzado [of cfg s s1, rotated 2])
  next
    case False
    with assms(4) P_generar
    have "salida s1 = salida s @ [Cabecera, Generando (num_lineas cfg)]"
      by (auto simp: pasos_main)
    moreover have "\<forall>a \<in> set [Cabecera, Generando (num_lineas cfg)]. neutro a"
      by simp
    ultimately show ?thesis
      using assms(1) n by (rule inv_salida_no_lanzado [of cfg s s1, rotated 2])
  qed
next
  case P_lanzar
  with assms(2) have n: "ph s = S_no_lanzado" by (simp add: inv_hilo_def)
  from assms(4) P_lanzar have "salida s1 = salida s @ []"
    by (auto simp: pasos_main)
  with assms(1) n show ?thesis
    by (intro inv_salida_no_lanzado [of cfg s s1 "[]"]) simp_all
next
  case P_menu
  note m = paso_menu [OF P_menu assms(4)]
  then obtain extra where x: "salida s1 = salida s @ extra" "\<forall>x \<in> set extra. neutro x"
    by blast
  from m x assms(1) show ?thesis
    by (intro inv_salida_paso [of cfg s s1 extra]) (simp_all add: aviso_ok_neutro)
next
  case (P_estado_contador b)
  note f = paso_main_frame [OF assms(4)]
  from f P_estado_contador have e: "ph s1 = ph s" "ficheros s1 = ficheros s" by simp_all
  from assms(4) P_estado_contador
  have x: "salida s1 = salida s @
      [if b then ConteoFinalizado (contador_errores s) else ConteoEnCurso (contador_errores s)]"
    by (auto simp: pasos_main)
  from assms(2) P_estado_contador have nl: "ph s \<noteq> S_no_lanzado"
    by (auto simp: inv_hilo_def)
  have t: "total cfg s1 = total cfg s" using e by (simp add: total_def)
  have y: "ya_escrito cfg s1 = ya_escrito cfg s" using e by (simp add: ya_escrito_def)
  have "aviso_ok cfg s1
      (if b then ConteoFinalizado (contador_errores s) else ConteoEnCurso (contador_errores s))"
  proof (cases b)
    case True
    with assms(3) P_estado_contador have "ph s = S_terminado" by (simp add: inv_main_def)
    with assms(2) True e t show ?thesis by (simp add: inv_hilo_def)
  next
    case False
    with assms(2) nl e t y show ?thesis
      by (cases "ph s"; cases "ficheros s (nombre_archivo cfg)")
         (simp_all add: inv_hilo_def ya_escrito_def total_def)
  qed
  with e x assms(1) show ?thesis
    by (intro inv_salida_paso [OF _ _ _ x]) simp_all
next
  case P_final_leer
  note f = paso_main_frame [OF assms(4)]
  from f P_final_leer have e: "ph s1 = ph s" "ficheros s1 = ficheros s" by simp_all
  from assms(4) P_final_leer
  have x: "salida s1 = salida s @ [ResultadoFinal (palabra_clave cfg) (contador_errores s)]"
    by (auto simp: pasos_main)
  have t: "total cfg s1 = total cfg s" using e by (simp add: total_def)
  from assms(3) P_final_leer have "ph s = S_terminado" by (simp add: inv_main_def)
  with assms(2) e t
  have "aviso_ok cfg s1 (ResultadoFinal (palabra_clave cfg) (contador_errores s))"
    by (simp add: inv_hilo_def)
  with e x assms(1) show ?thesis
    by (intro inv_salida_paso [OF _ _ _ x]) simp_all
next
  case P_salir
  note f = paso_main_frame [OF assms(4)]
  from f P_salir have e: "ph s1 = ph s" "ficheros s1 = ficheros s" by simp_all
  from assms(4) P_salir
  have x: "salida s1 = salida s @ [if hilo_terminado s then CabeceraFinal else Esperando]"
    by (auto simp: pasos_main)
  with e assms(1) show ?thesis
    by (intro inv_salida_paso [OF _ _ _ x]) simp_all
next
  case P_join
  note f = paso_main_frame [OF assms(4)]
  from f P_join have e: "ph s1 = ph s" "ficheros s1 = ficheros s" by simp_all
  from assms(4) P_join
  have x: "salida s1 = salida s @ [CabeceraFinal]"
    by (cases "ph s = S_terminado") (auto simp: pasos_main)
  with e assms(1) show ?thesis
    by (intro inv_salida_paso [OF _ _ _ x]) simp_all
next
  case P_final_liberar
  note f = paso_main_frame [OF assms(4)]
  from f P_final_liberar have e: "ph s1 = ph s" "ficheros s1 = ficheros s" by simp_all
  from assms(4) P_final_liberar
  have x: "salida s1 = salida s @ [Despedida]"
    by (auto simp: pasos_main)
  with e assms(1) show ?thesis
    by (intro inv_salida_paso [OF _ _ _ x]) simp_all
next
  case P_estado_adquirir
  note f = paso_main_frame [OF assms(4)]
  from f P_estado_adquirir have e: "ph s1 = ph s" "ficheros s1 = ficheros s" by simp_all
  from assms(4) P_estado_adquirir
  have x: "salida s1 = salida s @ []"
    by (cases "semaforo s = 0") (auto simp: pasos_main)
  with e assms(1) show ?thesis
    by (intro inv_salida_paso [OF _ _ _ x]) simp_all
next
  case P_estado_bandera
  note f = paso_main_frame [OF assms(4)]
  from f P_estado_bandera have e: "ph s1 = ph s" "ficheros s1 = ficheros s" by simp_all
  from assms(4) P_estado_bandera
  have x: "salida s1 = salida s @ []"
    by (auto simp: pasos_main)
  with e assms(1) show ?thesis
    by (intro inv_salida_paso [OF _ _ _ x]) simp_all
next
  case P_estado_liberar
  note f = paso_main_frame [OF assms(4)]
  from f P_estado_liberar have e: "ph s1 = ph s" "ficheros s1 = ficheros s" by simp_all
  from assms(4) P_estado_liberar
  have x: "salida s1 = salida s @ []"
    by (auto simp: pasos_main)
  with e assms(1) show ?thesis
    by (intro inv_salida_paso [OF _ _ _ x]) simp_all
next
  case P_final_adquirir
  note f = paso_main_frame [OF assms(4)]
  from f P_final_adquirir have e: "ph s1 = ph s" "ficheros s1 = ficheros s" by simp_all
  from assms(4) P_final_adquirir
  have x: "salida s1 = salida s @ []"
    by (cases "semaforo s = 0") (auto simp: pasos_main)
  with e assms(1) show ?thesis
    by (intro inv_salida_paso [OF _ _ _ x]) simp_all
qed (use assms(4) in \<open>simp_all add: pasos_main\<close>)

lemma inv_paso:
  assumes "inv cfg s" "paso cfg h s = Some s1"
  shows "inv cfg s1"
proof (cases h)
  case Principal
  with assms(2) have p: "paso_main cfg s = Some s1" by (simp add: paso_def)
  from assms(1) show ?thesis
    unfolding inv_def
    using inv_sem_main [OF _ _ p] inv_hilo_main [OF _ p] inv_main_main [OF _ _ p]
      inv_hist_main [OF _ _ p] inv_salida_main [OF _ _ _ p]
    by blast
next
  case Secundario
  with assms(2)
  have p: "paso_contar_errores_en_fichero (nombre_archivo cfg) (palabra_clave cfg) s = Some s1"
    by (simp add: paso_def)
  from assms(1) show ?thesis
    unfolding inv_def
    using inv_sem_hilo [OF _ p] inv_hilo_hilo [OF _ p] inv_main_hilo [OF _ p]
      inv_hist_hilo [OF _ _ p] inv_salida_hilo [OF _ _ p]
    by blast
qed

lemma inv_arranque: "arranque s \<Longrightarrow> inv cfg s"
  by (auto simp: arranque_def inv_def inv_sem_def inv_hilo_def inv_main_def inv_hist_def
      inv_salida_def ya_escrito_def)

lemma inv_ejecutar_aux: "inv cfg s0 \<Longrightarrow> ejecutar cfg plan s0 = Some s \<Longrightarrow> inv cfg s"
proof (induction plan arbitrary: s0)
  case Nil
  then show ?case by simp
next
  case (Cons h plan)
  then show ?case
    by (cases "paso cfg h s0") (auto dest: inv_paso)
qed

lemma inv_ejecutar: "arranque s0 \<Longrightarrow> ejecutar cfg plan s0 = Some s \<Longrightarrow> inv cfg s"
  using inv_ejecutar_aux inv_arranque by blast

lemma ejecutar_append:
  "ejecutar cfg (p1 @ p2) s =
     (case ejecutar cfg p1 s of None \<Rightarrow> None | Some s1 \<Rightarrow> ejecutar cfg p2 s1)"
  by (induction p1 arbitrary: s) (auto split: option.splits)

section \<open>The properties\<close>

lemma bandera_paso:
  assumes "hilo_terminado s" "paso cfg h s = Some s1"
  shows "hilo_terminado s1"
proof (cases h)
  case Principal
  with assms paso_main_frame [of cfg s s1] show ?thesis
    by (simp add: paso_def)
next
  case Secundario
  with assms(2)
  have p: "paso_contar_errores_en_fichero (nombre_archivo cfg) (palabra_clave cfg) s = Some s1"
    by (simp add: paso_def)
  show ?thesis
  proof (cases "ph s")
    case S_inicio
    with p assms(1) show ?thesis
      by (cases "ficheros s (nombre_archivo cfg)") (auto simp: pasos_hilo)
  next
    case (S_bucle ls i c)
    with p assms(1) show ?thesis
      by (cases "i < length ls") (auto simp: pasos_hilo)
  next
    case (S_adquirir c)
    with p assms(1) show ?thesis
      by (cases "semaforo s = 0") (auto simp: pasos_hilo)
  qed (use p assms(1) in \<open>auto simp: pasos_hilo\<close>)
qed

lemma bandera_ejecutar:
  "hilo_terminado s \<Longrightarrow> ejecutar cfg plan s = Some s2 \<Longrightarrow> hilo_terminado s2"
proof (induction plan arbitrary: s)
  case Nil
  then show ?case by simp
next
  case (Cons h plan)
  then show ?case
    by (cases "paso cfg h s") (auto dest: bandera_paso)
qed

lemmas evaluar = cfg_ejemplo_def fichero_ejemplo_def inicio_ejemplo_def
  menu_ejemplo_def entrada_ejemplo_def plan_hilo_solo_def
  plan_hasta_join_def plan_espera_def estado_inicial_def paso_def pasos_main pasos_hilo
  strip_def es_blanco_def nl_def

lemma arranque_ejemplo: "arranque (inicio_ejemplo ent)"
  by (simp add: arranque_def inicio_ejemplo_def estado_inicial_def)

lemma bandera_iff_terminado:
  assumes "inv_hilo cfg s"
  shows "hilo_terminado s \<longleftrightarrow> ph s = S_terminado"
  using assms by (cases "ph s") (simp_all add: inv_hilo_def)

lemma ficheros_paso:
  assumes "pp s \<noteq> P_generar" "paso cfg h s = Some s1"
  shows "ficheros s1 = ficheros s \<and> pp s1 \<noteq> P_generar"
proof (cases h)
  case Secundario
  with assms paso_hilo_frame [of "nombre_archivo cfg" "palabra_clave cfg" s s1]
  show ?thesis by (simp add: paso_def)
next
  case Principal
  with assms(2) have p: "paso_main cfg s = Some s1" by (simp add: paso_def)
  show ?thesis
  proof (cases "pp s = P_lanzar")
    case True
    with p show ?thesis by (auto simp: pasos_main)
  next
    case False
    with assms(1) paso_main_frame [OF p] paso_main_pp [OF p] show ?thesis by simp
  qed
qed

lemma ficheros_ejecutar:
  "pp s \<noteq> P_generar \<Longrightarrow> ejecutar cfg plan s = Some s2 \<Longrightarrow>
     ficheros s2 = ficheros s \<and> pp s2 \<noteq> P_generar"
proof (induction plan arbitrary: s)
  case Nil
  then show ?case by simp
next
  case (Cons h plan)
  then show ?case
    by (cases "paso cfg h s") (auto dest: ficheros_paso)
qed

lemma ejecutar_seguir:
  assumes "ejecutar cfg plan s0 = Some s" "ejecutar cfg plan2 s = Some s2"
  shows "ejecutar cfg (plan @ plan2) s0 = Some s2"
  using assms by (simp add: ejecutar_append)

lemma terminado_no_generar: "inv_hilo cfg s \<Longrightarrow> ph s \<noteq> S_no_lanzado \<Longrightarrow> pp s \<noteq> P_generar"
  by (auto simp: inv_hilo_def)
















lemma concat_readlines: "concat (readlines t) = t"
  by (induction t) (auto split: list.splits)

lemma readlines_no_vacias: "l \<in> set (readlines t) \<Longrightarrow> l \<noteq> []"
  by (induction t arbitrary: l) (auto split: list.splits if_splits)















text \<open>
  C2 (as the program has it). Every read and every write of the shared count is made
  by a thread that holds the semaphore, and the two threads never hold it together. The
  completion flag is read under the semaphore by the status display (line 167) only:
  the accesses made without holding the semaphore are the assignment to the flag at the
  end of the secondary thread (line 122) and the read of the flag on the exit path of
  the main thread (line 248), and no other.
\<close>

theorem accesos_al_contador_protegidos:
  assumes "arranque s0" and "ejecutar cfg plan s0 = Some s"
  shows "set (desprotegidos (historia s)) \<subseteq>
      {Escribe Secundario Bandera 122, Lee Principal Bandera 248} \<and>
    (\<forall>a \<in> set (desprotegidos (historia s)). \<not> toca Contador a) \<and>
    \<not> (tiene Principal (historia s) \<and> tiene Secundario (historia s))"
proof -
  from assms have i: "inv cfg s" by (rule inv_ejecutar)
  then have d: "set (desprotegidos (historia s)) \<subseteq>
      {Escribe Secundario Bandera 122, Lee Principal Bandera 248}"
    by (simp add: inv_def inv_hist_def)
  then have c: "\<forall>a \<in> set (desprotegidos (historia s)). \<not> toca Contador a"
    by auto
  from i have "semaforo s + (if en_sc_s (ph s) then 1 else 0) +
      (if en_sc_p (pp s) then 1 else 0) = 1"
    and "saldo Secundario (historia s) = (if en_sc_s (ph s) then 1 else 0)"
    and "saldo Principal (historia s) = (if en_sc_p (pp s) then 1 else 0)"
    by (simp_all add: inv_def inv_sem_def inv_hist_def)
  then have "\<not> (tiene Principal (historia s) \<and> tiene Secundario (historia s))"
    by (auto simp: tiene_def split: if_splits)
  with d c show ?thesis by blast
qed

theorem accesos_al_contador_protegidos_witness:
  "\<exists>s. arranque (inicio_ejemplo entrada_ejemplo) \<and>
     ejecutar cfg_ejemplo plan_espera (inicio_ejemplo entrada_ejemplo) = Some s \<and>
     Lee Principal Contador 170 \<in> set (historia s) \<and>
     Escribe Secundario Contador 107 \<in> set (historia s) \<and>
     Lee Principal Contador 269 \<in> set (historia s) \<and>
     Lee Principal Contador 170 \<notin> set (desprotegidos (historia s)) \<and>
     Escribe Secundario Contador 107 \<notin> set (desprotegidos (historia s)) \<and>
     Lee Principal Contador 269 \<notin> set (desprotegidos (historia s))"
proof -
  have "\<exists>s. ejecutar cfg_ejemplo plan_espera (inicio_ejemplo entrada_ejemplo) = Some s \<and>
     Lee Principal Contador 170 \<in> set (historia s) \<and>
     Escribe Secundario Contador 107 \<in> set (historia s) \<and>
     Lee Principal Contador 269 \<in> set (historia s)"
    by (simp add: evaluar)
  then obtain s where
    e: "ejecutar cfg_ejemplo plan_espera (inicio_ejemplo entrada_ejemplo) = Some s"
    and h: "Lee Principal Contador 170 \<in> set (historia s)"
      "Escribe Secundario Contador 107 \<in> set (historia s)"
      "Lee Principal Contador 269 \<in> set (historia s)"
    by blast
  note m = accesos_al_contador_protegidos [OF arranque_ejemplo e]
  from m have "Lee Principal Contador 170 \<notin> set (desprotegidos (historia s))"
    "Escribe Secundario Contador 107 \<notin> set (desprotegidos (historia s))"
    "Lee Principal Contador 269 \<notin> set (desprotegidos (historia s))"
    by auto
  with e h arranque_ejemplo show ?thesis by blast
qed

text \<open>
  C2 as stated fails: in the run in which the user leaves while the file is being read,
  the read of the flag of line 248 and the assignment to it of line 122 are made by
  threads that do not hold the semaphore.
\<close>

theorem bandera_sin_semaforo_counterexample:
  "accesos_desprotegidos cfg_ejemplo plan_espera (inicio_ejemplo entrada_ejemplo) =
     [Lee Principal Bandera 248, Escribe Secundario Bandera 122]"
  by (simp add: accesos_desprotegidos_def evaluar desprotegidos_def tiene_def saldo_def)





text \<open>
  C5. Once the completion flag is true the shared count is frozen. In every execution,
  if the flag is true in a state then the count of that state is the count of the
  complete scan; every state that any continuation reaches has the same count and a
  true flag, hence the same \<open>(count, flag)\<close> pair, and its history holds no assignment
  to the count beyond those of the earlier state; and every status message that says
  that the count has finished shows that count.
\<close>

theorem contador_congelado:
  assumes "arranque s0" and "ejecutar cfg plan s0 = Some s" and "hilo_terminado s"
    and "ejecutar cfg plan2 s = Some s2"
  shows "contador_errores s = total cfg s \<and>
    contador_errores s2 = contador_errores s \<and> hilo_terminado s2 \<and>
    escrituras Contador (historia s2) = escrituras Contador (historia s) \<and>
    (\<forall>n. ConteoFinalizado n \<in> set (salida s2) \<longrightarrow> n = contador_errores s)"
proof -
  from assms(1,2) have i: "inv cfg s" by (rule inv_ejecutar)
  from assms(1) ejecutar_seguir [OF assms(2,4)] have i2: "inv cfg s2" by (rule inv_ejecutar)
  from assms(3,4) have b2: "hilo_terminado s2" by (rule bandera_ejecutar)
  from i assms(3) have t: "ph s = S_terminado"
    using bandera_iff_terminado [of cfg s] by (simp add: inv_def)
  from i2 b2 have t2: "ph s2 = S_terminado"
    using bandera_iff_terminado [of cfg s2] by (simp add: inv_def)
  from i t have "pp s \<noteq> P_generar"
    using terminado_no_generar [of cfg s] by (simp add: inv_def)
  with assms(4) have f: "ficheros s2 = ficheros s"
    using ficheros_ejecutar by blast
  then have tt: "total cfg s2 = total cfg s" by (simp add: total_def)
  from f t t2 have y: "ya_escrito cfg s2 = ya_escrito cfg s" by (simp add: ya_escrito_def)
  from i t have c: "contador_errores s = total cfg s" by (simp add: inv_def inv_hilo_def)
  from i2 t2 tt have c2: "contador_errores s2 = total cfg s" by (simp add: inv_def inv_hilo_def)
  from i i2 y have e: "escrituras Contador (historia s2) = escrituras Contador (historia s)"
    by (simp add: inv_def inv_hist_def)
  have "n = total cfg s" if "ConteoFinalizado n \<in> set (salida s2)" for n
  proof -
    from i2 that have "aviso_ok cfg s2 (ConteoFinalizado n)"
      by (auto simp: inv_def inv_salida_def)
    with tt show ?thesis by simp
  qed
  with c c2 b2 e show ?thesis by simp
qed

theorem contador_congelado_witness:
  "\<exists>s s2. arranque (inicio_ejemplo entrada_ejemplo) \<and>
     ejecutar cfg_ejemplo plan_hilo_solo (inicio_ejemplo entrada_ejemplo) = Some s \<and>
     hilo_terminado s \<and>
     ejecutar cfg_ejemplo [Principal, Principal, Principal, Principal, Principal] s = Some s2 \<and>
     contador_errores s = 2 \<and> contador_errores s2 = 2 \<and> hilo_terminado s2 \<and>
     salida s2 = salida s @ [MenuMostrado, ConteoFinalizado 2]"
proof -
  have "\<exists>s s2. ejecutar cfg_ejemplo plan_hilo_solo (inicio_ejemplo entrada_ejemplo) = Some s \<and>
     ejecutar cfg_ejemplo [Principal, Principal, Principal, Principal, Principal] s = Some s2 \<and>
     hilo_terminado s \<and> contador_errores s = 2 \<and>
     salida s2 = salida s @ [MenuMostrado, ConteoFinalizado 2]"
    by (simp add: evaluar)
  then obtain s s2 where
    e: "ejecutar cfg_ejemplo plan_hilo_solo (inicio_ejemplo entrada_ejemplo) = Some s"
    and e2: "ejecutar cfg_ejemplo [Principal, Principal, Principal, Principal, Principal] s =
      Some s2"
    and t: "hilo_terminado s" and c: "contador_errores s = 2"
    and o: "salida s2 = salida s @ [MenuMostrado, ConteoFinalizado 2]"
    by blast
  note m = contador_congelado [OF arranque_ejemplo e t e2]
  from m c have "contador_errores s2 = 2" "hilo_terminado s2" by simp_all
  with e e2 t c o arranque_ejemplo show ?thesis by blast
qed











end
